theory Spec2Isabelle
  imports Complex_Main
begin

section \<open>Age gate at the edge: a model of \<open>src/main.ts\<close>\<close>

text \<open>
  The repository is one request handler, \<open>responseProvider\<close>, and one helper,
  \<open>calculateAge\<close>. The handler reads four things from outside: the outcome of
  \<open>request.json()\<close>, the country of \<open>request.userLocation\<close>, the clock
  (\<open>new Date()\<close>) and the key/value store. Each of them is an explicit input of the model,
  so that the handler is a function of them.
\<close>

subsection \<open>Numbers\<close>

text \<open>
  Every number the handler computes with is a time value, a year or an age: either
  \<open>NaN\<close> or an integer far below \<open>2^53\<close>, where the arithmetic of doubles is exact.
  The one subtraction that can leave that range is \<open>now.getTime() - birthdate.getTime()\<close>
  (both operands are at most \<open>8.64e15\<close> in magnitude); a difference that large is
  rounded by the engine, but rounding is monotone and \<open>8.64e15\<close> is a double, so the
  rounded and the exact difference are on the same side of the range check of
  \<open>TimeClip\<close>, which is all that is done with it.
\<close>

datatype jsnum = NaN | Num int

fun js_sub :: "jsnum \<Rightarrow> jsnum \<Rightarrow> jsnum" where
  "js_sub (Num a) (Num b) = Num (a - b)"
| "js_sub _ _ = NaN"

text \<open>The relational operator \<open>>=\<close> on numbers: false as soon as one side is \<open>NaN\<close>.\<close>

fun js_ge :: "jsnum \<Rightarrow> jsnum \<Rightarrow> bool" where
  "js_ge (Num a) (Num b) = (b \<le> a)"
| "js_ge _ _ = False"

subsection \<open>Dates (ECMAScript, Date objects)\<close>

definition msPerDay :: int where
  "msPerDay = 86400000"

definition maxTime :: int where
  "maxTime = 8640000000000000"

definition Day :: "int \<Rightarrow> int" where
  "Day t = t div msPerDay"

text \<open>The number of days from 1 January 1970 to 1 January of year \<open>y\<close>.\<close>

definition DayFromYear :: "int \<Rightarrow> int" where
  "DayFromYear y =
     365 * (y - 1970) + (y - 1969) div 4 - (y - 1901) div 100 + (y - 1601) div 400"

definition TimeFromYear :: "int \<Rightarrow> int" where
  "TimeFromYear y = msPerDay * DayFromYear y"

definition InLeapYear :: "int \<Rightarrow> bool" where
  "InLeapYear y = (y mod 4 = 0 \<and> (y mod 100 \<noteq> 0 \<or> y mod 400 = 0))"

definition DaysInYear :: "int \<Rightarrow> int" where
  "DaysInYear y = (if InLeapYear y then 366 else 365)"

text \<open>
  ECMAScript specifies \<open>YearFromTime(t)\<close> as the largest year whose start is not after
  \<open>t\<close>. This is a version that computes: the day number is taken relative to
  1 January 2001, the first day of a 400-year cycle of 146097 days, then split into
  centuries (36524 days, the fourth one day longer), four-year groups (1461 days) and
  years (365 days, the fourth one day longer). \<open>YearFromDay_largest\<close> below shows that
  it is the year of the specification.
\<close>

definition YearFromDay :: "int \<Rightarrow> int" where
  "YearFromDay d =
     (let e = d - 11323;
          q = e div 146097;
          r = e mod 146097;
          a = min (r div 36524) 3;
          r2 = r - 36524 * a;
          b = r2 div 1461;
          r3 = r2 mod 1461;
          c = min (r3 div 365) 3
      in 2001 + 400 * q + 100 * a + 4 * b + c)"

text \<open>
  The days before the \<open>k\<close>-th year of a 400-year cycle that starts with the year after a
  multiple of 400, such as 2001 (used to show that \<open>YearFromDay\<close> is right).
\<close>

definition cycle_days :: "int \<Rightarrow> int" where
  "cycle_days k = 365 * k + k div 4 - k div 100 + k div 400"

definition YearFromTime :: "int \<Rightarrow> int" where
  "YearFromTime t = YearFromDay (Day t)"

text \<open>A Date object is its time value: \<open>NaN\<close> for an invalid date.\<close>

datatype Date = Date (getTime: jsnum)

fun TimeClip :: "jsnum \<Rightarrow> jsnum" where
  "TimeClip NaN = NaN"
| "TimeClip (Num t) = (if maxTime < \<bar>t\<bar> then NaN else Num t)"

fun getUTCFullYear :: "Date \<Rightarrow> jsnum" where
  "getUTCFullYear (Date NaN) = NaN"
| "getUTCFullYear (Date (Num t)) = Num (YearFromTime t)"

subsection \<open>\<open>calculateAge\<close>\<close>

text \<open>
  The first argument is the clock: the time value that \<open>new Date()\<close> reads when
  \<open>calculateAge\<close> is called. \<open>new Date(diff)\<close> on a number clips it.
\<close>

definition calculateAge :: "int \<Rightarrow> Date \<Rightarrow> jsnum" where
  "calculateAge clock birthdate =
     (let now = Date (Num clock);
          diff = js_sub (getTime now) (getTime birthdate);
          ageInYears = js_sub (getUTCFullYear (Date (TimeClip diff))) (Num 1970)
      in ageInYears)"

subsection \<open>JSON values\<close>

text \<open>
  What \<open>request.json()\<close> resolves to, and what the store holds. A JSON number is a
  double: a finite one is a rational, and a literal such as \<open>1e999\<close> is an infinity.
  The members of an object are kept in the order of the text; \<open>JSON.parse\<close> lets the
  last of several members with one key win.
\<close>

datatype jsdouble = Finite rat | PosInfinity | NegInfinity

datatype json =
    JNull
  | JBool bool
  | JNumber jsdouble
  | JString string
  | JArray "json list"
  | JObject "(string \<times> json) list"

datatype jsval = Undefined | Val json

datatype js_error = TypeError

text \<open>
  \<open>jsonBody['birthday']\<close>. Reading a property of \<open>null\<close> throws; a number, a
  boolean, a string and an array have no property of that name; an object has it when
  it is one of its members.
\<close>

fun get_birthday :: "json \<Rightarrow> js_error + jsval" where
  "get_birthday JNull = Inl TypeError"
| "get_birthday (JObject kvs) =
     Inr (case map_of (rev kvs) ''birthday'' of None \<Rightarrow> Undefined | Some v \<Rightarrow> Val v)"
| "get_birthday _ = Inr Undefined"

text \<open>
  Conversion of an object or an array to a string (\<open>ToPrimitive\<close>, then
  \<open>Array.prototype.join\<close> on the elements of an array). A parsed object has no
  callable member, so a member named \<open>toString\<close> hides \<open>Object.prototype.toString\<close>
  and the conversion throws a TypeError; without it the object prints as
  \<open>[object Object]\<close>. How a number prints is left to the engine.
\<close>

fun join :: "string list \<Rightarrow> string" where
  "join [] = []"
| "join [s] = s"
| "join (s # t # ss) = s @ '','' @ join (t # ss)"

fun ToString_throws :: "json \<Rightarrow> bool" where
  "ToString_throws (JObject kvs) = (''toString'' \<in> set (map fst kvs))"
| "ToString_throws (JArray xs) = list_ex ToString_throws xs"
| "ToString_throws _ = False"

fun ToString :: "(jsdouble \<Rightarrow> string) \<Rightarrow> json \<Rightarrow> string" where
  "ToString nts JNull = ''null''"
| "ToString nts (JBool b) = (if b then ''true'' else ''false'')"
| "ToString nts (JNumber d) = nts d"
| "ToString nts (JString s) = s"
| "ToString nts (JArray xs) =
     join (map (\<lambda>x. case x of JNull \<Rightarrow> [] | _ \<Rightarrow> ToString nts x) xs)"
| "ToString nts (JObject kvs) = ''[object Object]''"

text \<open>\<open>TimeClip\<close> of a double: out of range or infinite is \<open>NaN\<close>, else truncated.\<close>

fun TimeClip_double :: "jsdouble \<Rightarrow> jsnum" where
  "TimeClip_double (Finite q) =
     (if of_int maxTime < \<bar>q\<bar> then NaN
      else Num (if 0 \<le> q then \<lfloor>q\<rfloor> else \<lceil>q\<rceil>))"
| "TimeClip_double _ = NaN"

subsection \<open>The surroundings of one call\<close>

text \<open>
  Modelled from the spec: the store as the client of \<open>./edgekv.js\<close> sees it (section 6,
  read-one-item of namespace, group, key and timeout). One read ends in a timeout, in no
  item, or in the stored value; the store answers the \<open>n\<close>-th read of a call for a
  namespace, a group, an item and a timeout in milliseconds.
\<close>

datatype read_outcome = ReadTimeout | ReadAbsent | ReadValue json

type_synonym kv_store = "string \<Rightarrow> string \<Rightarrow> string \<Rightarrow> nat \<Rightarrow> nat \<Rightarrow> read_outcome"

text \<open>
  \<open>Date_parse\<close> and \<open>Number_toString\<close> are the engine's \<open>Date.parse\<close> and its printing
  of numbers; \<open>clock\<close> is the current time value, \<open>kv_read\<close> the store.
\<close>

record env =
  clock :: int
  Date_parse :: "string \<Rightarrow> jsnum"
  Number_toString :: "jsdouble \<Rightarrow> string"
  kv_read :: kv_store

text \<open>
  The request: \<open>json_result\<close> is how \<open>await request.json()\<close> ends, \<open>Inl\<close> with the
  text of the error (what the template literal makes of it) when the promise is
  rejected; \<open>userLocation_country\<close> is \<open>request.userLocation.country\<close>, \<open>None\<close> for
  \<open>undefined\<close>. The object \<open>request.userLocation\<close> itself is taken to be there, as the
  handler takes it.
\<close>

record request =
  json_result :: "string + json"
  userLocation_country :: "string option"

text \<open>
  \<open>new Date(value)\<close> on what \<open>jsonBody['birthday']\<close> gave: \<open>undefined\<close> is an invalid
  date, \<open>null\<close> and the booleans are the numbers 0 and 1, a number is clipped, a string
  is parsed, an array or an object is first turned into a string.
\<close>

fun newDate :: "('a env_scheme) \<Rightarrow> jsval \<Rightarrow> js_error + Date" where
  "newDate E Undefined = Inr (Date NaN)"
| "newDate E (Val JNull) = Inr (Date (Num 0))"
| "newDate E (Val (JBool b)) = Inr (Date (Num (if b then 1 else 0)))"
| "newDate E (Val (JNumber d)) = Inr (Date (TimeClip_double d))"
| "newDate E (Val (JString s)) = Inr (Date (TimeClip (Date_parse E s)))"
| "newDate E (Val v) =
     (if ToString_throws v then Inl TypeError
      else Inr (Date (TimeClip (Date_parse E (ToString (Number_toString E) v)))))"

subsection \<open>\<open>JSON.stringify\<close> of the response object\<close>

text \<open>An integer prints in decimal (\<open>Number::toString\<close> below \<open>10^21\<close>).\<close>

fun digits :: "nat \<Rightarrow> string" where
  "digits n =
     (if n < 10 then [char_of (48 + n)] else digits (n div 10) @ [char_of (48 + n mod 10)])"

declare digits.simps [simp del]

definition integer_to_string :: "int \<Rightarrow> string" where
  "integer_to_string n = (if n < 0 then CHR ''-'' # digits (nat (- n)) else digits (nat n))"

text \<open>\<open>JSON.stringify\<close> writes a number that is not finite as \<open>null\<close>.\<close>

fun JSON_number :: "jsnum \<Rightarrow> string" where
  "JSON_number NaN = ''null''"
| "JSON_number (Num n) = integer_to_string n"

text \<open>
  \<open>QuoteJSONString\<close>: the double quote, the backslash and the control characters are
  escaped, the control characters without a short form as \<open>\u00XX\<close> in lower case.
\<close>

definition hex_digit :: "nat \<Rightarrow> char" where
  "hex_digit n = (if n < 10 then char_of (48 + n) else char_of (87 + n))"

definition quote_char :: "char \<Rightarrow> string" where
  \<open>quote_char c =
     (if c = CHR 0x22 then [CHR 0x5C, CHR 0x22]
      else if c = CHR 0x5C then [CHR 0x5C, CHR 0x5C]
      else if c = CHR 0x08 then [CHR 0x5C, CHR ''b'']
      else if c = CHR 0x09 then [CHR 0x5C, CHR ''t'']
      else if c = CHR 0x0A then [CHR 0x5C, CHR ''n'']
      else if c = CHR 0x0C then [CHR 0x5C, CHR ''f'']
      else if c = CHR 0x0D then [CHR 0x5C, CHR ''r'']
      else if (of_char c :: nat) < 32
        then [CHR 0x5C, CHR ''u'', CHR ''0'', CHR ''0'',
              hex_digit (of_char c div 16), hex_digit (of_char c mod 16)]
      else [c])\<close>

definition QuoteJSONString :: "string \<Rightarrow> string" where
  \<open>QuoteJSONString s = [CHR 0x22] @ concat (map quote_char s) @ [CHR 0x22]\<close>

text \<open>The \<open>Response\<close> interface of the handler.\<close>

record Response =
  age :: jsnum
  country :: string
  message :: string

definition JSON_stringify :: "Response \<Rightarrow> string" where
  \<open>JSON_stringify r =
     ''{"age":'' @ JSON_number (age r) @
     '',"country":'' @ QuoteJSONString (country r) @
     '',"message":'' @ QuoteJSONString (message r) @ ''}''\<close>

subsection \<open>The response of the platform\<close>

text \<open>
  A header is one string or a list of strings. The header object is a list of its
  properties in the order of their creation; \<open>createResponse\<close> keeps what it is given.
\<close>

datatype header_value = One string | Many "string list"

record http_response =
  status :: nat
  headers :: "(string \<times> header_value) list"
  body :: string

definition createResponse ::
  "nat \<Rightarrow> (string \<times> header_value) list \<Rightarrow> string \<Rightarrow> http_response" where
  "createResponse st hs b = \<lparr>status = st, headers = hs, body = b\<rparr>"

text \<open>\<open>SetCookie\<close> of the platform with a name and a value only.\<close>

record SetCookie =
  cookie_name :: string
  cookie_value :: string

definition toHeader :: "SetCookie \<Rightarrow> string" where
  "toHeader c = cookie_name c @ ''='' @ cookie_value c"

subsection \<open>The policy store client\<close>

text \<open>The options that the handler gives to the constructor of the client.\<close>

record EdgeKV =
  namespace :: string
  group :: string
  num_retries_on_timeout :: nat

datatype kv_error = KvTimeout | KvAbsent | KvNotInteger

text \<open>
  Modelled from the spec: when a stored value is an integer, for \<open>EdgeKV.getJson\<close> of
  \<open>./edgekv.js\<close>, which is not among the sources. Section 4.2: the call fails if the
  stored value is not interpretable as an integer.
\<close>

fun as_integer :: "json \<Rightarrow> int option" where
  "as_integer (JNumber (Finite q)) = (if of_int \<lfloor>q\<rfloor> = q then Some \<lfloor>q\<rfloor> else None)"
| "as_integer _ = None"

text \<open>
  Modelled from the spec: the reads of one call of \<open>EdgeKV.getJson\<close> of \<open>./edgekv.js\<close>,
  which is not among the sources. Section 4.2: issue a read for the item keyed by
  country code; if the read exceeds the timeout, retry up to the configured retry count;
  if all attempts fail, or the stored value is absent or not interpretable as an integer,
  the call fails.
\<close>

fun read_with_retries :: "(nat \<Rightarrow> read_outcome) \<Rightarrow> nat \<Rightarrow> nat \<Rightarrow> kv_error + int" where
  "read_with_retries rd attempt retries =
     (case rd attempt of
        ReadTimeout \<Rightarrow>
          (case retries of
             0 \<Rightarrow> Inl KvTimeout
           | Suc n \<Rightarrow> read_with_retries rd (Suc attempt) n)
      | ReadAbsent \<Rightarrow> Inl KvAbsent
      | ReadValue v \<Rightarrow>
          (case as_integer v of None \<Rightarrow> Inl KvNotInteger | Some n \<Rightarrow> Inr n))"

declare read_with_retries.simps [simp del]

text \<open>
  Modelled from the spec: \<open>EdgeKV.getJson\<close> of \<open>./edgekv.js\<close>, which is not among the
  sources. Section 4.2: \<open>lookupMinimumAge(countryCode) -> integer\<close>, a read by namespace,
  group and item key, with the timeout of the call and the retry count of the client.
\<close>

definition getJson :: "kv_store \<Rightarrow> EdgeKV \<Rightarrow> string \<Rightarrow> nat \<Rightarrow> kv_error + int" where
  "getJson store kv item timeout =
     read_with_retries (store (namespace kv) (group kv) item timeout) 0
       (num_retries_on_timeout kv)"

subsection \<open>The handler\<close>

definition edgeKv2fa :: EdgeKV where
  "edgeKv2fa = \<lparr>namespace = ''jgrinwiskv'', group = ''age_gate'', num_retries_on_timeout = 2\<rparr>"

definition edgeKvTimeout :: nat where
  "edgeKvTimeout = 500"

definition responseHeader :: "(string \<times> header_value) list" where
  "responseHeader =
     [(''Powered-By'', Many [''Akamai EdgeWorkers: 0.0.16'']),
      (''content-type'', Many [''application/json''])]"

text \<open>\<open>request.userLocation.country || 'NL'\<close>: \<open>undefined\<close> and the empty string are falsy.\<close>

definition countryCode :: "'a request_scheme \<Rightarrow> string" where
  "countryCode request =
     (case userLocation_country request of
        None \<Rightarrow> ''NL''
      | Some c \<Rightarrow> if c = [] then ''NL'' else c)"

text \<open>
  What \<open>logger.log\<close> is called with: a text, or a format whose argument is the
  function \<open>error.toString\<close> (it is not called).
\<close>

datatype log_entry = LogText string | LogFormat string

text \<open>
  Lines 56 to 83: \<open>minimalAge\<close> starts at 18, the lookup overwrites it, and a failed
  lookup is logged and leaves it. The template literal of the first log line prints the
  number as the engine prints numbers.
\<close>

definition minimalAge_lookup :: "'a env_scheme \<Rightarrow> string \<Rightarrow> int \<times> log_entry list" where
  "minimalAge_lookup E cc =
     (let minimalAge = 18 in
      case getJson (kv_read E) edgeKv2fa cc edgeKvTimeout of
        Inr v \<Rightarrow> (v, [LogText (''edgekv value: '' @ Number_toString E (Finite (of_int v)))])
      | Inl error \<Rightarrow> (minimalAge, [LogFormat ''something went wrong: %s'']))"

text \<open>
  Lines 59 to 64 and 85 to 99: the default answer, the comparison, the cookie and the
  message, and the response with status 200.
\<close>

definition age_check :: "jsnum \<Rightarrow> string \<Rightarrow> int \<Rightarrow> http_response" where
  "age_check a cc minimalAge =
     (let response = \<lparr>age = a, country = cc, message = ''You are too young to drink!''\<rparr>;
          (hdrs, response) =
            (if js_ge a (Num minimalAge)
             then (let cookie = \<lparr>cookie_name = ''old_enough'', cookie_value = ''yes''\<rparr>
                   in (responseHeader @ [(''set-cookie'', One (toHeader cookie))],
                       response\<lparr>message := ''Welcome, have a drink.''\<rparr>))
             else (responseHeader, response))
      in createResponse 200 hdrs (JSON_stringify response))"

text \<open>
  The handler returns what was logged and how its promise ends: \<open>Inr\<close> with the
  response when it is resolved, \<open>Inl\<close> when an exception leaves the function.
\<close>

definition responseProvider ::
  "'a env_scheme \<Rightarrow> 'b request_scheme \<Rightarrow> log_entry list \<times> (js_error + http_response)" where
  \<open>responseProvider E request =
     (case json_result request of
        Inl error \<Rightarrow>
          (let errorMessage = ''{"error": "'' @ error @ ''"}''
           in ([], Inr (createResponse 503 responseHeader errorMessage)))
      | Inr jsonBody \<Rightarrow>
          (let cc = countryCode request in
           case get_birthday jsonBody of
             Inl e \<Rightarrow> ([], Inl e)
           | Inr b \<Rightarrow>
               (case newDate E b of
                  Inl e \<Rightarrow> ([], Inl e)
                | Inr birthdate \<Rightarrow>
                    (let a = calculateAge (clock E) birthdate;
                         (minimalAge, logged) = minimalAge_lookup E cc
                     in (logged, Inr (age_check a cc minimalAge))))))\<close>

subsection \<open>The objects of a call, and what stays between calls\<close>

text \<open>
  The handler writes to three objects: the header object (line 22, written at line 92),
  the response object (line 60, written at line 95) and the cookie (line 87, written at
  lines 88 and 89). Here they live in a heap that outlasts the call, together with the
  log of the platform, so that what one call leaves behind is there for the next one.
  The module itself has two bindings, \<open>edgeKv2fa\<close> and \<open>edgeKvTimeout\<close>, both \<open>const\<close> and
  only read by the handler.
\<close>

datatype object =
    HeaderObject "(string \<times> header_value) list"
  | ResponseObject Response
  | CookieObject SetCookie

record world =
  heap :: "nat \<Rightarrow> object option"
  next_ref :: nat
  logged :: "log_entry list"

text \<open>An object literal or \<open>new\<close>: the object is made at the next free reference.\<close>

definition new_object :: "object \<Rightarrow> world \<Rightarrow> nat \<times> world" where
  "new_object obj w =
     (next_ref w, w\<lparr>heap := (heap w)(next_ref w \<mapsto> obj), next_ref := Suc (next_ref w)\<rparr>)"

definition put_object :: "nat \<Rightarrow> object \<Rightarrow> world \<Rightarrow> world" where
  "put_object r obj w = w\<lparr>heap := (heap w)(r \<mapsto> obj)\<rparr>"

definition logger_log :: "log_entry \<Rightarrow> world \<Rightarrow> world" where
  "logger_log e w = w\<lparr>logged := logged w @ [e]\<rparr>"

text \<open>
  Reading an object through its reference. A reference of the handler always holds the
  kind of object it was made for; the other cases are there for totality.
\<close>

definition header_object :: "world \<Rightarrow> nat \<Rightarrow> (string \<times> header_value) list" where
  "header_object w r = (case heap w r of Some (HeaderObject hs) \<Rightarrow> hs | _ \<Rightarrow> [])"

definition response_object :: "world \<Rightarrow> nat \<Rightarrow> Response" where
  "response_object w r =
     (case heap w r of
        Some (ResponseObject x) \<Rightarrow> x
      | _ \<Rightarrow> \<lparr>age = NaN, country = [], message = []\<rparr>)"

definition cookie_object :: "world \<Rightarrow> nat \<Rightarrow> SetCookie" where
  "cookie_object w r =
     (case heap w r of
        Some (CookieObject c) \<Rightarrow> c
      | _ \<Rightarrow> \<lparr>cookie_name = [], cookie_value = []\<rparr>)"

text \<open>
  \<open>object[key] = value\<close>: the property is overwritten where it is, or added at the end.
\<close>

fun set_property ::
  "string \<Rightarrow> header_value \<Rightarrow> (string \<times> header_value) list \<Rightarrow> (string \<times> header_value) list" where
  "set_property k v [] = [(k, v)]"
| "set_property k v ((k', v') # ps) =
     (if k = k' then (k, v) # ps else (k', v') # set_property k v ps)"

text \<open>
  Lines 86 to 95, the branch of the passed check: a new cookie gets its name and its
  value, the header object gets the property \<open>set-cookie\<close>, the response object gets the
  other message.
\<close>

definition old_enough :: "nat \<Rightarrow> nat \<Rightarrow> world \<Rightarrow> world" where
  "old_enough header_ref response_ref w =
     (let (cookie, w1) = new_object (CookieObject \<lparr>cookie_name = [], cookie_value = []\<rparr>) w;
          w2 = put_object cookie
                 (CookieObject ((cookie_object w1 cookie)\<lparr>cookie_name := ''old_enough''\<rparr>)) w1;
          w3 = put_object cookie
                 (CookieObject ((cookie_object w2 cookie)\<lparr>cookie_value := ''yes''\<rparr>)) w2;
          w4 = put_object header_ref
                 (HeaderObject
                    (set_property ''set-cookie'' (One (toHeader (cookie_object w3 cookie)))
                       (header_object w3 header_ref))) w3
      in put_object response_ref
           (ResponseObject
              ((response_object w4 response_ref)\<lparr>message := ''Welcome, have a drink.''\<rparr>)) w4)"

text \<open>
  Lines 23 to 99: the handler after its header object is made, given the reference to
  that object. The response is made of what the header object and the response object
  hold when \<open>createResponse\<close> is called.
\<close>

definition responseProvider_body ::
  "nat \<Rightarrow> 'a env_scheme \<Rightarrow> 'b request_scheme \<Rightarrow> world
   \<Rightarrow> (js_error + http_response) \<times> world" where
  \<open>responseProvider_body header_ref E request w =
     (case json_result request of
        Inl error \<Rightarrow>
          (let errorMessage = ''{"error": "'' @ error @ ''"}''
           in (Inr (createResponse 503 (header_object w header_ref) errorMessage), w))
      | Inr jsonBody \<Rightarrow>
          (let cc = countryCode request in
           case get_birthday jsonBody of
             Inl e \<Rightarrow> (Inl e, w)
           | Inr b \<Rightarrow>
               (case newDate E b of
                  Inl e \<Rightarrow> (Inl e, w)
                | Inr birthdate \<Rightarrow>
                    (let a = calculateAge (clock E) birthdate;
                         minimalAge0 = 18;
                         (response_ref, w1) =
                           new_object
                             (ResponseObject
                                \<lparr>age = a, country = cc,
                                 message = ''You are too young to drink!''\<rparr>) w;
                         (minimalAge, w2) =
                           (case getJson (kv_read E) edgeKv2fa cc edgeKvTimeout of
                              Inr v \<Rightarrow>
                                (v, logger_log
                                      (LogText (''edgekv value: '' @
                                         Number_toString E (Finite (of_int v)))) w1)
                            | Inl error \<Rightarrow>
                                (minimalAge0,
                                 logger_log (LogFormat ''something went wrong: %s'') w1));
                         w3 = (if js_ge a (Num minimalAge)
                               then old_enough header_ref response_ref w2 else w2)
                     in (Inr (createResponse 200 (header_object w3 header_ref)
                                (JSON_stringify (response_object w3 response_ref))),
                         w3)))))\<close>

text \<open>Lines 19 to 99: one call of the handler. Its header object is new.\<close>

definition responseProvider_call ::
  "'a env_scheme \<Rightarrow> 'b request_scheme \<Rightarrow> world \<Rightarrow> (js_error + http_response) \<times> world" where
  "responseProvider_call E request w =
     (let (header_ref, w1) = new_object (HeaderObject responseHeader) w
      in responseProvider_body header_ref E request w1)"

subsection \<open>JSON texts of the shape of the error body\<close>

text \<open>
  The grammar of JSON (RFC 8259), as far as the error body needs it. \<open>json_string_tail\<close>
  reads a string after its opening quote and gives what follows the closing quote:
  a control character and a backslash that starts no escape end the reading with nothing.
\<close>

definition is_ws :: "char \<Rightarrow> bool" where
  "is_ws c = (c = CHR 0x20 \<or> c = CHR 0x09 \<or> c = CHR 0x0A \<or> c = CHR 0x0D)"

definition is_hex :: "char \<Rightarrow> bool" where
  "is_hex c =
     (let n = (of_char c :: nat)
      in (48 \<le> n \<and> n \<le> 57) \<or> (65 \<le> n \<and> n \<le> 70) \<or> (97 \<le> n \<and> n \<le> 102))"

fun json_string_tail :: "string \<Rightarrow> string option" where
  "json_string_tail [] = None"
| "json_string_tail (c # cs) =
     (if c = CHR 0x22 then Some cs
      else if c = CHR 0x5C then
        (case cs of
           [] \<Rightarrow> None
         | e # es \<Rightarrow>
             if e \<in> set [CHR 0x22, CHR 0x5C, CHR ''/'', CHR ''b'', CHR ''f'', CHR ''n'',
                          CHR ''r'', CHR ''t'']
             then json_string_tail es
             else if e = CHR ''u'' then
               (case es of
                  h1 # h2 # h3 # h4 # r \<Rightarrow>
                    if is_hex h1 \<and> is_hex h2 \<and> is_hex h3 \<and> is_hex h4
                    then json_string_tail r else None
                | _ \<Rightarrow> None)
             else None)
      else if (of_char c :: nat) < 32 then None
      else json_string_tail cs)"

text \<open>
  Whether a text that starts as every error body starts, with \<open>{"error": "\<close>, is a JSON
  object with the one member \<open>error\<close> whose value is a string: the string has to end
  with a quote, and only the closing brace and white space may follow.
\<close>

definition is_error_object :: "string \<Rightarrow> bool" where
  \<open>is_error_object s =
     (if take 11 s = ''{"error": "'' then
        (case json_string_tail (drop 11 s) of
           None \<Rightarrow> False
         | Some t \<Rightarrow>
             (case dropWhile is_ws t of
                [] \<Rightarrow> False
              | c # r \<Rightarrow> c = CHR ''}'' \<and> list_all is_ws r))
      else False)\<close>

subsection \<open>Sample surroundings\<close>

text \<open>
  An engine, a store and a clock to run the handler on: the three dates are parsed as
  every engine parses them (midnight UTC) and nothing else is a date, numbers print as
  integers (the samples have no other), the clock is 1 June 2024, and the store holds
  21 for US, answers for NL at the third read and never for DE.
\<close>

definition sample_Date_parse :: "string \<Rightarrow> jsnum" where
  "sample_Date_parse s =
     (if s = ''2000-01-01'' then Num 946684800000
      else if s = ''2010-01-01'' then Num 1262304000000
      else if s = ''2030-01-01'' then Num 1893456000000
      else NaN)"

definition sample_store :: kv_store where
  "sample_store ns grp item timeout attempt =
     (if ns = ''jgrinwiskv'' \<and> grp = ''age_gate'' \<and> item = ''US''
        then ReadValue (JNumber (Finite 21))
      else if ns = ''jgrinwiskv'' \<and> grp = ''age_gate'' \<and> item = ''NL''
        then (if attempt < 2 then ReadTimeout else ReadValue (JNumber (Finite 18)))
      else if item = ''DE'' then ReadTimeout
      else ReadAbsent)"

definition sample_Number_toString :: "jsdouble \<Rightarrow> string" where
  "sample_Number_toString d =
     (case d of
        Finite q \<Rightarrow> integer_to_string \<lfloor>q\<rfloor>
      | PosInfinity \<Rightarrow> ''Infinity''
      | NegInfinity \<Rightarrow> ''-Infinity'')"

definition sample_env :: env where
  "sample_env =
     \<lparr>clock = 1717200000000, Date_parse = sample_Date_parse,
      Number_toString = sample_Number_toString, kv_read = sample_store\<rparr>"

text \<open>Some requests, and the world before the first call.\<close>

definition request_2000_US :: request where
  "request_2000_US =
     \<lparr>json_result = Inr (JObject [(''birthday'', JString ''2000-01-01'')]),
      userLocation_country = Some ''US''\<rparr>"

definition request_2000_DE :: request where
  "request_2000_DE =
     \<lparr>json_result = Inr (JObject [(''birthday'', JString ''2000-01-01'')]),
      userLocation_country = Some ''DE''\<rparr>"

definition request_2010_nowhere :: request where
  "request_2010_nowhere =
     \<lparr>json_result = Inr (JObject [(''birthday'', JString ''2010-01-01'')]),
      userLocation_country = Some []\<rparr>"

definition request_soon :: request where
  "request_soon =
     \<lparr>json_result = Inr (JObject [(''birthday'', JString ''soon'')]),
      userLocation_country = Some ''US''\<rparr>"

definition request_no_birthday :: request where
  "request_no_birthday =
     \<lparr>json_result = Inr (JObject [(''name'', JString ''x'')]),
      userLocation_country = None\<rparr>"

definition request_null_birthday :: request where
  "request_null_birthday =
     \<lparr>json_result = Inr (JObject [(''birthday'', JNull)]),
      userLocation_country = Some ''US''\<rparr>"

definition request_null :: request where
  "request_null = \<lparr>json_result = Inr JNull, userLocation_country = Some ''US''\<rparr>"

definition request_far_birthday :: request where
  "request_far_birthday =
     \<lparr>json_result = Inr (JObject [(''birthday'', JNumber (Finite (- 8640000000000000)))]),
      userLocation_country = Some ''US''\<rparr>"

definition request_not_json_quoted :: request where
  \<open>request_not_json_quoted =
     \<lparr>json_result =
        Inl ''SyntaxError: Unexpected token 'o', "not json" is not valid JSON'',
      userLocation_country = Some ''US''\<rparr>\<close>

definition world_init :: world where
  "world_init = \<lparr>heap = (\<lambda>r. None), next_ref = 0, logged = []\<rparr>"

definition request_not_json :: request where
  "request_not_json =
     \<lparr>json_result = Inl ''SyntaxError: Unexpected token o in JSON at position 1'',
      userLocation_country = Some ''US''\<rparr>"

section \<open>The calendar\<close>

lemma div_upper: "0 < n \<Longrightarrow> x < n * (x div n + (1::int))"
proof -
  assume n: "0 < n"
  define u where "u = x div n"
  define v where "v = x mod n"
  have "x = n * u + v" unfolding u_def v_def by simp
  moreover have "v < n" unfolding v_def using n by simp
  ultimately show "x < n * (u + 1)" by (simp add: algebra_simps)
qed

lemma div_lower: "0 < n \<Longrightarrow> n * (x div n) \<le> (x::int)"
proof -
  assume n: "0 < n"
  define u where "u = x div n"
  define v where "v = x mod n"
  have "x = n * u + v" unfolding u_def v_def by simp
  moreover have "0 \<le> v" unfolding v_def using n by simp
  ultimately show "n * u \<le> x" by simp
qed

lemma le_div_iff: "0 < n \<Longrightarrow> (n * y \<le> x) = (y \<le> x div (n::int))"
proof
  assume n: "0 < n" and le: "n * y \<le> x"
  show "y \<le> x div n"
  proof (rule ccontr)
    assume "\<not> y \<le> x div n"
    then have "x div n + 1 \<le> y" by simp
    then have "n * (x div n + 1) \<le> n * y" using n by (intro mult_left_mono) simp_all
    then show False using le div_upper [OF n, of x] by simp
  qed
next
  assume n: "0 < n" and le: "y \<le> x div n"
  then have "n * y \<le> n * (x div n)" by (intro mult_left_mono) simp_all
  then show "n * y \<le> x" using div_lower [OF n, of x] by simp
qed

text \<open>One more year adds one to a quotient exactly when the new dividend is a multiple.\<close>

lemma div_succ:
  assumes n: "1 < (n::int)"
  shows "(x + 1) div n = x div n + (if (x + 1) mod n = 0 then 1 else 0)"
proof -
  define u where "u = x div n"
  define v where "v = x mod n"
  have n0: "n \<noteq> 0" using n by simp
  have x: "x = u * n + v" unfolding u_def v_def by simp
  have v: "0 \<le> v" "v < n" unfolding v_def using n by simp_all
  show ?thesis
  proof (cases "v + 1 = n")
    case True
    then have "x + 1 = (u + 1) * n" using x by (simp add: algebra_simps)
    then have "(x + 1) div n = u + 1" "(x + 1) mod n = 0"
      using n0 by simp_all
    then show ?thesis unfolding u_def by simp
  next
    case False
    then have lt: "v + 1 < n" using v by simp
    have x1: "x + 1 = (v + 1) + u * n" using x by simp
    have "((v + 1) + u * n) div n = u + (v + 1) div n"
      using n0 by (rule div_mult_self1)
    moreover have "((v + 1) + u * n) mod n = (v + 1) mod n"
      by (rule mod_mult_self1)
    moreover have "(v + 1) div n = 0" "(v + 1) mod n = v + 1"
      using lt v by simp_all
    ultimately have "(x + 1) div n = u" "(x + 1) mod n = v + 1"
      unfolding x1 by simp_all
    then show ?thesis unfolding u_def using v by simp
  qed
qed

lemma year_div_4:
  "(y + 1 - 1969) div 4 = (y - 1969) div 4 + (if (y::int) mod 4 = 0 then 1 else 0)"
proof -
  have s: "y + 1 - 1969 = (y - 1969) + 1" by simp
  have "(y + (- 492) * 4) mod 4 = y mod 4" by (rule mod_mult_self1)
  moreover have "y - 1969 + 1 = y + (- 492) * 4" by simp
  ultimately have m: "((y - 1969 + 1) mod 4 = 0) = (y mod 4 = 0)" by simp
  have "((y - 1969) + 1) div 4 =
      (y - 1969) div 4 + (if ((y - 1969) + 1) mod 4 = 0 then 1 else 0)"
    by (rule div_succ) simp
  then show ?thesis by (simp only: s m)
qed

lemma year_div_100:
  "(y + 1 - 1901) div 100 = (y - 1901) div 100 + (if (y::int) mod 100 = 0 then 1 else 0)"
proof -
  have s: "y + 1 - 1901 = (y - 1901) + 1" by simp
  have "(y + (- 19) * 100) mod 100 = y mod 100" by (rule mod_mult_self1)
  moreover have "y - 1901 + 1 = y + (- 19) * 100" by simp
  ultimately have m: "((y - 1901 + 1) mod 100 = 0) = (y mod 100 = 0)" by simp
  have "((y - 1901) + 1) div 100 =
      (y - 1901) div 100 + (if ((y - 1901) + 1) mod 100 = 0 then 1 else 0)"
    by (rule div_succ) simp
  then show ?thesis by (simp only: s m)
qed

lemma year_div_400:
  "(y + 1 - 1601) div 400 = (y - 1601) div 400 + (if (y::int) mod 400 = 0 then 1 else 0)"
proof -
  have s: "y + 1 - 1601 = (y - 1601) + 1" by simp
  have "(y + (- 4) * 400) mod 400 = y mod 400" by (rule mod_mult_self1)
  moreover have "y - 1601 + 1 = y + (- 4) * 400" by simp
  ultimately have m: "((y - 1601 + 1) mod 400 = 0) = (y mod 400 = 0)" by simp
  have "((y - 1601) + 1) div 400 =
      (y - 1601) div 400 + (if ((y - 1601) + 1) mod 400 = 0 then 1 else 0)"
    by (rule div_succ) simp
  then show ?thesis by (simp only: s m)
qed

text \<open>
  \<open>DayFromYear\<close> is the calendar: it is 0 for 1970, and the next year starts 366 days
  later after a leap year and 365 days later otherwise.
\<close>

lemma DayFromYear_1970: "DayFromYear 1970 = 0"
  by (simp add: DayFromYear_def)

lemma DayFromYear_Suc: "DayFromYear (y + 1) = DayFromYear y + DaysInYear y"
proof -
  define d4 where "d4 = (y - 1969) div 4"
  define d100 where "d100 = (y - 1901) div 100"
  define d400 where "d400 = (y - 1601) div 400"
  define l4 where "l4 = (y mod 4 = 0)"
  define l100 where "l100 = (y mod 100 = 0)"
  define l400 where "l400 = (y mod 400 = 0)"
  have "y mod 400 = 0 \<Longrightarrow> y mod 100 = 0"
    using mod_mod_cancel [of 100 400 y] by simp
  then have l1: "l400 \<Longrightarrow> l100" unfolding l100_def l400_def .
  have "y mod 100 = 0 \<Longrightarrow> y mod 4 = 0"
    using mod_mod_cancel [of 4 100 y] by simp
  then have l2: "l100 \<Longrightarrow> l4" unfolding l4_def l100_def .
  have 1: "DayFromYear (y + 1) = 365 * (y + 1 - 1970) + (d4 + (if l4 then 1 else 0))
      - (d100 + (if l100 then 1 else 0)) + (d400 + (if l400 then 1 else 0))"
    unfolding DayFromYear_def year_div_4 year_div_100 year_div_400
      d4_def d100_def d400_def l4_def l100_def l400_def ..
  have 2: "DayFromYear y = 365 * (y - 1970) + d4 - d100 + d400"
    unfolding DayFromYear_def d4_def d100_def d400_def ..
  have 3: "DaysInYear y = (if l4 \<and> (\<not> l100 \<or> l400) then 366 else 365)"
    unfolding DaysInYear_def InLeapYear_def l4_def l100_def l400_def ..
  show ?thesis
    unfolding 1 2 3 using l1 l2 by (cases l4; cases l100; cases l400) simp_all
qed

lemma DayFromYear_mono: "y \<le> z \<Longrightarrow> DayFromYear y \<le> DayFromYear z"
proof (induction z rule: int_ge_induct)
  case base
  show ?case by simp
next
  case (step i)
  then show ?case unfolding DayFromYear_Suc DaysInYear_def by simp
qed

text \<open>The start of a year, by its place in the 400-year cycle that starts in 2001.\<close>

lemma DayFromYear_cycle:
  "DayFromYear (2001 + 400 * q + k) = 11323 + 146097 * q + cycle_days k"
proof -
  have "2001 + 400 * q + k - 1969 = k + 4 * (8 + 100 * q)" by simp
  then have d4: "(2001 + 400 * q + k - 1969) div 4 = 8 + 100 * q + k div 4"
    by (simp only: div_mult_self2)
  have "2001 + 400 * q + k - 1901 = k + 100 * (1 + 4 * q)" by simp
  then have d100: "(2001 + 400 * q + k - 1901) div 100 = 1 + 4 * q + k div 100"
    by (simp only: div_mult_self2)
  have "2001 + 400 * q + k - 1601 = k + 400 * (1 + q)" by simp
  then have d400: "(2001 + 400 * q + k - 1601) div 400 = 1 + q + k div 400"
    by (simp only: div_mult_self2)
  show ?thesis
    unfolding DayFromYear_def cycle_days_def d4 d100 d400 by simp
qed

lemma cycle_days_split:
  assumes "0 \<le> a" "a \<le> 3" "0 \<le> b" "b \<le> 24" "0 \<le> c" "c \<le> 3"
  shows "cycle_days (100 * a + 4 * b + c) = 36524 * a + 1461 * b + 365 * c"
proof -
  have c4: "c div 4 = 0" using assms by simp
  have "(c + 4 * (25 * a + b)) div 4 = (25 * a + b) + c div 4"
    by (rule div_mult_self2) simp
  moreover have "100 * a + 4 * b + c = c + 4 * (25 * a + b)" by simp
  ultimately have k4: "(100 * a + 4 * b + c) div 4 = 25 * a + b"
    using c4 by simp
  have bc: "(4 * b + c) div 100 = 0" using assms by simp
  have "((4 * b + c) + 100 * a) div 100 = a + (4 * b + c) div 100"
    by (rule div_mult_self2) simp
  moreover have "100 * a + 4 * b + c = (4 * b + c) + 100 * a" by simp
  ultimately have k100: "(100 * a + 4 * b + c) div 100 = a"
    using bc by simp
  have k400: "(100 * a + 4 * b + c) div 400 = 0" using assms by simp
  show ?thesis unfolding cycle_days_def k4 k100 k400 by simp
qed

lemma cycle_days_400: "cycle_days 400 = 146097"
  by (simp add: cycle_days_def)

lemma YearFromDay_bounds:
  "DayFromYear (YearFromDay d) \<le> d \<and> d < DayFromYear (YearFromDay d + 1)"
proof -
  define e where "e = d - 11323"
  define q where "q = e div 146097"
  define r where "r = e mod 146097"
  define a where "a = min (r div 36524) 3"
  define r2 where "r2 = r - 36524 * a"
  define b where "b = r2 div 1461"
  define r3 where "r3 = r2 mod 1461"
  define c where "c = min (r3 div 365) 3"
  define k where "k = 100 * a + 4 * b + c"
  have y: "YearFromDay d = 2001 + 400 * q + k"
    unfolding YearFromDay_def Let_def e_def q_def r_def a_def r2_def b_def r3_def c_def k_def
    by (simp only: add.assoc)
  have d: "d = 11323 + 146097 * q + r"
    unfolding q_def r_def e_def by simp
  have r: "0 \<le> r" "r < 146097" unfolding r_def by simp_all
  have a: "0 \<le> a" "a \<le> 3" using r unfolding a_def by simp_all
  have ar: "36524 * a \<le> r"
    using div_lower [of 36524 r] unfolding a_def by simp
  have ar': "a < 3 \<Longrightarrow> r < 36524 * (a + 1)"
    using div_upper [of 36524 r] unfolding a_def by simp
  have r2: "0 \<le> r2" "a < 3 \<Longrightarrow> r2 < 36524"
    using ar ar' unfolding r2_def by simp_all
  have r2': "r2 < 36525"
  proof (cases "a < 3")
    case True
    then show ?thesis using r2 by simp
  next
    case False
    then have "a = 3" using a by simp
    then show ?thesis using r unfolding r2_def by simp
  qed
  have b0: "0 \<le> b" using r2 unfolding b_def by simp
  have "1461 * b \<le> r2" using div_lower [of 1461 r2] unfolding b_def by simp
  then have b24: "b \<le> 24" using r2' by simp
  have r3: "0 \<le> r3" "r3 < 1461" "r2 = 1461 * b + r3" unfolding r3_def b_def by simp_all
  have c: "0 \<le> c" "c \<le> 3" using r3 unfolding c_def by simp_all
  have cr: "365 * c \<le> r3"
    using div_lower [of 365 r3] unfolding c_def by simp
  have cr': "c < 3 \<Longrightarrow> r3 < 365 * (c + 1)"
    using div_upper [of 365 r3] unfolding c_def by simp
  have rr: "r = 36524 * a + 1461 * b + r3" using r3 unfolding r2_def by simp
  have g: "cycle_days k = 36524 * a + 1461 * b + 365 * c"
    unfolding k_def using a b0 b24 c by (rule cycle_days_split)
  have "DayFromYear (YearFromDay d) = 11323 + 146097 * q + (36524 * a + 1461 * b + 365 * c)"
    by (simp only: y DayFromYear_cycle g)
  moreover have "d = 11323 + 146097 * q + (36524 * a + 1461 * b + r3)"
    using d rr by simp
  ultimately have lo: "DayFromYear (YearFromDay d) \<le> d"
    using cr by simp
  have up: "r < cycle_days (k + 1)"
  proof (cases "c < 3")
    case True
    have k1: "k + 1 = 100 * a + 4 * b + (c + 1)" unfolding k_def by simp
    have "cycle_days (100 * a + 4 * b + (c + 1)) = 36524 * a + 1461 * b + 365 * (c + 1)"
      using a b0 b24 c True by (intro cycle_days_split) simp_all
    then have "cycle_days (k + 1) = 36524 * a + 1461 * b + 365 * (c + 1)"
      by (simp only: k1)
    then show ?thesis using cr' [OF True] rr by simp
  next
    case c3: False
    then have c3: "c = 3" using c by simp
    show ?thesis
    proof (cases "b < 24")
      case True
      have k1: "k + 1 = 100 * a + 4 * (b + 1) + 0" unfolding k_def c3 by simp
      have "cycle_days (100 * a + 4 * (b + 1) + 0) = 36524 * a + 1461 * (b + 1) + 365 * 0"
        using a b0 True by (intro cycle_days_split) simp_all
      then have "cycle_days (k + 1) = 36524 * a + 1461 * (b + 1) + 365 * 0"
        by (simp only: k1)
      then show ?thesis using r3 rr by simp
    next
      case False
      then have b24': "b = 24" using b24 by simp
      show ?thesis
      proof (cases "a < 3")
        case True
        have k1: "k + 1 = 100 * (a + 1) + 4 * 0 + 0" unfolding k_def c3 b24' by simp
        have "cycle_days (100 * (a + 1) + 4 * 0 + 0) = 36524 * (a + 1) + 1461 * 0 + 365 * 0"
          using a True by (intro cycle_days_split) simp_all
        then have "cycle_days (k + 1) = 36524 * (a + 1) + 1461 * 0 + 365 * 0"
          by (simp only: k1)
        then show ?thesis using ar' [OF True] by simp
      next
        case False
        then have "a = 3" using a by simp
        then have "k + 1 = 400" unfolding k_def c3 b24' by simp
        then show ?thesis using r cycle_days_400 by simp
      qed
    qed
  qed
  have hi: "d < DayFromYear (YearFromDay d + 1)"
  proof -
    have "YearFromDay d + 1 = 2001 + 400 * q + (k + 1)" unfolding y by simp
    then have "DayFromYear (YearFromDay d + 1) = 11323 + 146097 * q + cycle_days (k + 1)"
      by (simp only: DayFromYear_cycle)
    then show ?thesis using d up by simp
  qed
  show ?thesis using lo hi by simp
qed

text \<open>\<open>YearFromDay d\<close> is the largest year that starts on or before day \<open>d\<close>.\<close>

lemma YearFromDay_largest: "DayFromYear y \<le> d \<longleftrightarrow> y \<le> YearFromDay d"
proof
  assume "y \<le> YearFromDay d"
  then have "DayFromYear y \<le> DayFromYear (YearFromDay d)" by (rule DayFromYear_mono)
  then show "DayFromYear y \<le> d" using YearFromDay_bounds [of d] by simp
next
  assume le: "DayFromYear y \<le> d"
  show "y \<le> YearFromDay d"
  proof (rule ccontr)
    assume "\<not> y \<le> YearFromDay d"
    then have "YearFromDay d + 1 \<le> y" by simp
    then have "DayFromYear (YearFromDay d + 1) \<le> DayFromYear y" by (rule DayFromYear_mono)
    then show False using le YearFromDay_bounds [of d] by simp
  qed
qed

lemma YearFromTime_largest: "TimeFromYear y \<le> t \<longleftrightarrow> y \<le> YearFromTime t"
proof -
  have "(msPerDay * DayFromYear y \<le> t) = (DayFromYear y \<le> t div msPerDay)"
    by (rule le_div_iff) (simp add: msPerDay_def)
  then show ?thesis
    unfolding TimeFromYear_def YearFromTime_def Day_def by (simp only: YearFromDay_largest)
qed

lemma YearFromTime_nonneg: "0 \<le> t \<Longrightarrow> 1970 \<le> YearFromTime t"
proof -
  assume "0 \<le> t"
  then have "TimeFromYear 1970 \<le> t" by (simp add: TimeFromYear_def DayFromYear_1970)
  then show ?thesis by (simp only: YearFromTime_largest)
qed

lemma calculateAge_valid:
  "calculateAge c (Date (Num b)) =
     (if \<bar>c - b\<bar> \<le> maxTime then Num (YearFromTime (c - b) - 1970) else NaN)"
  by (simp add: calculateAge_def)

lemma calculateAge_invalid: "calculateAge c (Date NaN) = NaN"
  by (simp add: calculateAge_def)

section \<open>The age\<close>

text \<open>
  C5 (as amended). For every clock and every birthdate that is a valid date not after
  the clock, with at most \<open>maxTime\<close> milliseconds between them, the age is the integer
  \<open>YearFromTime (clock - birthdate) - 1970\<close>, a function of the clock and the birthdate
  alone, and it is not negative.
\<close>

theorem calculateAge_nonneg:
  assumes "b \<le> c" and "c - b \<le> maxTime"
  shows "calculateAge c (Date (Num b)) = Num (YearFromTime (c - b) - 1970)
    \<and> 0 \<le> YearFromTime (c - b) - 1970"
proof -
  have "\<bar>c - b\<bar> \<le> maxTime" using assms by simp
  then have "calculateAge c (Date (Num b)) = Num (YearFromTime (c - b) - 1970)"
    by (simp only: calculateAge_valid if_True)
  moreover have "1970 \<le> YearFromTime (c - b)"
    using assms(1) by (intro YearFromTime_nonneg) simp
  ultimately show ?thesis by simp
qed

theorem calculateAge_nonneg_witness:
  "(946684800000::int) \<le> 1717200000000 \<and> 1717200000000 - 946684800000 \<le> maxTime
   \<and> calculateAge 1717200000000 (Date (Num 946684800000)) = Num 24
   \<and> (0::int) \<le> 24"
proof -
  have y: "YearFromTime 770515200000 = 1994"
    by (simp add: YearFromTime_def Day_def msPerDay_def YearFromDay_def Let_def)
  have h1: "(946684800000::int) \<le> 1717200000000" by simp
  have h2: "(1717200000000::int) - 946684800000 \<le> maxTime" by (simp add: maxTime_def)
  show ?thesis using h1 h2 calculateAge_nonneg [OF h1 h2] by (simp add: y)
qed

text \<open>
  C5 (as stated) fails for a birthdate after the clock: on 1 June 2024 a birthdate of
  1 January 2030 gives the age -6.
\<close>

theorem calculateAge_negative_counterexample:
  "calculateAge 1717200000000 (Date (Num 1893456000000)) = Num (- 6)"
  by (simp add: calculateAge_def maxTime_def YearFromTime_def Day_def msPerDay_def
      YearFromDay_def Let_def)

text \<open>
  C7. For a valid birthdate the age is computed from the elapsed milliseconds
  \<open>clock - birthdate\<close>: read as a time value counted from the 1970 epoch, they are a date
  (when they are within the range of dates), and the age is the UTC year of that date minus
  1970; that year is the largest year that starts, counted from the epoch, within the
  elapsed milliseconds. Out of the range of dates the date is invalid and the age is NaN.
\<close>

theorem calculateAge_elapsed_year:
  "calculateAge c (Date (Num b)) =
     js_sub (getUTCFullYear (Date (TimeClip (Num (c - b))))) (Num 1970)
   \<and> calculateAge c (Date (Num b)) =
       (if \<bar>c - b\<bar> \<le> maxTime then Num (YearFromTime (c - b) - 1970) else NaN)
   \<and> (\<forall>y. (TimeFromYear y \<le> c - b) = (y \<le> YearFromTime (c - b)))"
proof -
  have "calculateAge c (Date (Num b)) =
      js_sub (getUTCFullYear (Date (TimeClip (Num (c - b))))) (Num 1970)"
    by (simp add: calculateAge_def)
  then show ?thesis
    using calculateAge_valid [of c b] YearFromTime_largest [of _ "c - b"] by simp
qed

theorem calculateAge_elapsed_year_witness:
  "calculateAge 1717200000000 (Date (Num 1262304000000)) = Num 14
   \<and> TimeFromYear 1984 \<le> 1717200000000 - 1262304000000
   \<and> \<not> TimeFromYear 1985 \<le> 1717200000000 - 1262304000000"
proof -
  have y: "YearFromTime 454896000000 = 1984"
    by (simp add: YearFromTime_def Day_def msPerDay_def YearFromDay_def Let_def)
  show ?thesis
    using calculateAge_elapsed_year [of 1717200000000 1262304000000]
    by (simp add: maxTime_def y)
qed

section \<open>The handler\<close>

lemma age_check_pass:
  "js_ge a (Num m) \<Longrightarrow>
   age_check a cc m =
     \<lparr>status = 200,
      headers = responseHeader @ [(''set-cookie'', One ''old_enough=yes'')],
      body = JSON_stringify \<lparr>age = a, country = cc, message = ''Welcome, have a drink.''\<rparr>\<rparr>"
  by (simp add: age_check_def createResponse_def toHeader_def)

lemma age_check_fail:
  "\<not> js_ge a (Num m) \<Longrightarrow>
   age_check a cc m =
     \<lparr>status = 200, headers = responseHeader,
      body = JSON_stringify
        \<lparr>age = a, country = cc, message = ''You are too young to drink!''\<rparr>\<rparr>"
  by (simp add: age_check_def createResponse_def)

lemma age_check_status: "status (age_check a cc m) = 200"
  by (cases "js_ge a (Num m)") (simp_all add: age_check_pass age_check_fail)

lemma no_cookie_by_default: "map_of responseHeader ''set-cookie'' = None"
  by (simp add: responseHeader_def)

lemma responseProvider_unparsed:
  \<open>json_result request = Inl error \<Longrightarrow>
   responseProvider E request =
     ([], Inr \<lparr>status = 503, headers = responseHeader,
               body = ''{"error": "'' @ error @ ''"}''\<rparr>)\<close>
  by (simp add: responseProvider_def createResponse_def)

lemma responseProvider_resolved:
  assumes "json_result request = Inr jsonBody"
    and "get_birthday jsonBody = Inr b"
    and "newDate E b = Inr birthdate"
  shows "responseProvider E request =
     (snd (minimalAge_lookup E (countryCode request)),
      Inr (age_check (calculateAge (clock E) birthdate) (countryCode request)
             (fst (minimalAge_lookup E (countryCode request)))))"
  using assms by (simp add: responseProvider_def split_def Let_def)

lemma get_birthday_throws: "(get_birthday v = Inl e) = (v = JNull)"
  by (cases v; cases e) simp_all

lemma newDate_throws: "(newDate E b = Inl e) = (\<exists>v. b = Val v \<and> ToString_throws v)"
proof (cases b)
  case Undefined
  then show ?thesis by simp
next
  case (Val v)
  then show ?thesis by (cases v; cases e) simp_all
qed

lemma minimalAge_lookup_failed:
  "getJson (kv_read E) edgeKv2fa cc edgeKvTimeout = Inl err \<Longrightarrow>
   minimalAge_lookup E cc = (18, [LogFormat ''something went wrong: %s''])"
  by (simp add: minimalAge_lookup_def)

lemma minimalAge_lookup_found:
  "getJson (kv_read E) edgeKv2fa cc edgeKvTimeout = Inr m \<Longrightarrow>
   fst (minimalAge_lookup E cc) = m"
  by (simp add: minimalAge_lookup_def)

text \<open>
  C1. When a request has an age (its body parsed, and the birthday was read and made a
  Date), the handler answers 200; if the age compares \<open>>=\<close> to the effective minimum age,
  the header \<open>set-cookie\<close> is \<open>old_enough=yes\<close> and the message is
  \<open>Welcome, have a drink.\<close>; if not, there is no \<open>set-cookie\<close> header and the message is
  \<open>You are too young to drink!\<close>.
\<close>

theorem comparison_decides_marker_and_message:
  assumes "json_result request = Inr jsonBody"
    and "get_birthday jsonBody = Inr b"
    and "newDate E b = Inr birthdate"
  shows "\<exists>resp. snd (responseProvider E request) = Inr resp \<and> status resp = 200 \<and>
    (if js_ge (calculateAge (clock E) birthdate)
          (Num (fst (minimalAge_lookup E (countryCode request))))
     then map_of (headers resp) ''set-cookie'' = Some (One ''old_enough=yes'') \<and>
          body resp = JSON_stringify
            \<lparr>age = calculateAge (clock E) birthdate, country = countryCode request,
             message = ''Welcome, have a drink.''\<rparr>
     else map_of (headers resp) ''set-cookie'' = None \<and>
          body resp = JSON_stringify
            \<lparr>age = calculateAge (clock E) birthdate, country = countryCode request,
             message = ''You are too young to drink!''\<rparr>)"
proof (cases "js_ge (calculateAge (clock E) birthdate)
    (Num (fst (minimalAge_lookup E (countryCode request))))")
  case True
  then show ?thesis
    unfolding responseProvider_resolved [OF assms]
    by (simp add: age_check_pass map_add_def no_cookie_by_default)
next
  case False
  then show ?thesis
    unfolding responseProvider_resolved [OF assms]
    by (simp add: age_check_fail no_cookie_by_default)
qed

theorem comparison_decides_marker_and_message_witness:
  \<open>json_result request_2000_US = Inr (JObject [(''birthday'', JString ''2000-01-01'')])
   \<and> get_birthday (JObject [(''birthday'', JString ''2000-01-01'')])
       = Inr (Val (JString ''2000-01-01''))
   \<and> newDate sample_env (Val (JString ''2000-01-01'')) = Inr (Date (Num 946684800000))
   \<and> (\<exists>resp. snd (responseProvider sample_env request_2000_US) = Inr resp
         \<and> status resp = 200
         \<and> map_of (headers resp) ''set-cookie'' = Some (One ''old_enough=yes'')
         \<and> body resp = ''{"age":24,"country":"US","message":"Welcome, have a drink."}'')\<close>
proof -
  let ?a = "calculateAge (clock sample_env) (Date (Num 946684800000))"
  let ?cc = "countryCode request_2000_US"
  have h1: "json_result request_2000_US
      = Inr (JObject [(''birthday'', JString ''2000-01-01'')])"
    by (simp add: request_2000_US_def)
  have h2: "get_birthday (JObject [(''birthday'', JString ''2000-01-01'')])
      = Inr (Val (JString ''2000-01-01''))"
    by simp
  have h3: "newDate sample_env (Val (JString ''2000-01-01'')) = Inr (Date (Num 946684800000))"
    by (simp add: sample_env_def sample_Date_parse_def maxTime_def)
  have c: "js_ge ?a (Num (fst (minimalAge_lookup sample_env ?cc))) = True"
    by code_simp
  have b: \<open>JSON_stringify \<lparr>age = ?a, country = ?cc, message = ''Welcome, have a drink.''\<rparr>
      = ''{"age":24,"country":"US","message":"Welcome, have a drink."}''\<close>
    by code_simp
  from comparison_decides_marker_and_message [OF h1 h2 h3]
  obtain resp where "snd (responseProvider sample_env request_2000_US) = Inr resp"
    and "status resp = 200"
    and "map_of (headers resp) ''set-cookie'' = Some (One ''old_enough=yes'') \<and>
         body resp = JSON_stringify
           \<lparr>age = ?a, country = ?cc, message = ''Welcome, have a drink.''\<rparr>"
    unfolding c if_True by blast
  then show ?thesis using h1 h2 h3 unfolding b by blast
qed

text \<open>
  The path of the rejected \<open>request.json()\<close>: the handler resolves its own promise with
  status 503, the two default headers, and the text of the error between the fixed
  parts \<open>{"error": "\<close> and \<open>"}\<close>.
\<close>

lemma unparsed_body_is_503:
  \<open>json_result request = Inl error \<Longrightarrow>
   snd (responseProvider E request) =
     Inr \<lparr>status = 503,
          headers = [(''Powered-By'', Many [''Akamai EdgeWorkers: 0.0.16'']),
                     (''content-type'', Many [''application/json''])],
          body = ''{"error": "'' @ error @ ''"}''\<rparr>\<close>
  by (simp add: responseProvider_unparsed responseHeader_def)

text \<open>
  The text of the error is put in as it is. When none of its characters needs escaping,
  the body is the JSON text that \<open>QuoteJSONString\<close> would give, as for the message of an
  older engine.
\<close>

lemma error_body_quoted:
  assumes "\<And>c. c \<in> set error \<Longrightarrow> quote_char c = [c]"
  shows \<open>''{"error": "'' @ error @ ''"}'' = ''{"error": '' @ QuoteJSONString error @ ''}''\<close>
proof -
  have "concat (map quote_char error) = error"
    using assms by (induction error) simp_all
  then show ?thesis by (simp add: QuoteJSONString_def)
qed

lemma plain_error_body_is_json:
  \<open>snd (responseProvider sample_env request_not_json) =
     Inr \<lparr>status = 503, headers = responseHeader,
          body = ''{"error": "SyntaxError: Unexpected token o in JSON at position 1"}''\<rparr>
   \<and> is_error_object
        ''{"error": "SyntaxError: Unexpected token o in JSON at position 1"}''\<close>
  by code_simp

text \<open>
  C2 (as stated) fails for an error whose text has a double quote in it. The body of the
  503 response is to be JSON of the shape \<open>{"error": "<message>"}\<close>, and the handler
  sends it as \<open>application/json\<close>, but writes it by hand without escaping, unlike the 200
  path, which uses \<open>JSON.stringify\<close>. For the message that a current V8 gives for the
  body \<open>not json\<close>, the status and the headers are as they should be and the body is
  not JSON: its string ends at the first quote of the message, and more than a closing
  brace follows.
\<close>

theorem quoted_error_body_is_not_json:
  \<open>json_result request_not_json_quoted =
     Inl ''SyntaxError: Unexpected token 'o', "not json" is not valid JSON''
   \<and> snd (responseProvider sample_env request_not_json_quoted) =
     Inr \<lparr>status = 503,
          headers = [(''Powered-By'', Many [''Akamai EdgeWorkers: 0.0.16'']),
                     (''content-type'', Many [''application/json''])],
          body =
            ''{"error": "SyntaxError: Unexpected token 'o', "not json" is not valid JSON"}''\<rparr>
   \<and> json_string_tail
        ''SyntaxError: Unexpected token 'o', "not json" is not valid JSON"}''
       = Some ''not json" is not valid JSON"}''
   \<and> is_error_object
        ''{"error": "SyntaxError: Unexpected token 'o', "not json" is not valid JSON"}''
       = False\<close>
  by code_simp

text \<open>
  A text of the error that closes the string itself and adds a member gives JSON, of
  another shape.
\<close>

lemma injected_member_is_another_shape:
  \<open>snd (responseProvider sample_env
          \<lparr>json_result = Inl ''x", "status": "ok'', userLocation_country = None\<rparr>) =
     Inr \<lparr>status = 503, headers = responseHeader,
          body = ''{"error": "x", "status": "ok"}''\<rparr>
   \<and> is_error_object ''{"error": "x", "status": "ok"}'' = False\<close>
  by code_simp

section \<open>The lookup\<close>

lemma read_timeout_last:
  "rd n = ReadTimeout \<Longrightarrow> read_with_retries rd n 0 = Inl KvTimeout"
  by (simp add: read_with_retries.simps [of rd n 0])

lemma read_timeout_retry:
  "rd n = ReadTimeout \<Longrightarrow>
   read_with_retries rd n (Suc k) = read_with_retries rd (Suc n) k"
  by (simp add: read_with_retries.simps [of rd n "Suc k"])

lemma read_absent: "rd n = ReadAbsent \<Longrightarrow> read_with_retries rd n k = Inl KvAbsent"
  by (simp add: read_with_retries.simps [of rd n k])

lemma read_not_integer:
  "rd n = ReadValue v \<Longrightarrow> as_integer v = None \<Longrightarrow>
   read_with_retries rd n k = Inl KvNotInteger"
  by (simp add: read_with_retries.simps [of rd n k])

lemma read_integer:
  "rd n = ReadValue v \<Longrightarrow> as_integer v = Some m \<Longrightarrow> read_with_retries rd n k = Inr m"
  by (simp add: read_with_retries.simps [of rd n k])

text \<open>
  The kinds of failure: the first read and both retries time out; a read finds no
  item; a read finds a value that is not an integer.
\<close>

lemma getJson_times_out:
  assumes "store ''jgrinwiskv'' ''age_gate'' item t 0 = ReadTimeout"
    and "store ''jgrinwiskv'' ''age_gate'' item t 1 = ReadTimeout"
    and "store ''jgrinwiskv'' ''age_gate'' item t 2 = ReadTimeout"
  shows "getJson store edgeKv2fa item t = Inl KvTimeout"
proof -
  let ?rd = "store ''jgrinwiskv'' ''age_gate'' item t"
  have "read_with_retries ?rd 0 (Suc (Suc 0)) = read_with_retries ?rd (Suc 0) (Suc 0)"
    using assms(1) by (rule read_timeout_retry)
  also have "\<dots> = read_with_retries ?rd (Suc (Suc 0)) 0"
    using assms(2) by (intro read_timeout_retry) simp
  also have "\<dots> = Inl KvTimeout"
    using assms(3) by (intro read_timeout_last) (simp add: numeral_2_eq_2)
  finally show ?thesis
    by (simp add: getJson_def edgeKv2fa_def numeral_2_eq_2)
qed

lemma getJson_absent:
  "store ''jgrinwiskv'' ''age_gate'' item t 0 = ReadAbsent \<Longrightarrow>
   getJson store edgeKv2fa item t = Inl KvAbsent"
  by (simp add: getJson_def edgeKv2fa_def read_absent)

lemma getJson_not_integer:
  "store ''jgrinwiskv'' ''age_gate'' item t 0 = ReadValue v \<Longrightarrow> as_integer v = None \<Longrightarrow>
   getJson store edgeKv2fa item t = Inl KvNotInteger"
  by (simp add: getJson_def edgeKv2fa_def read_not_integer)

lemma getJson_integer:
  "store ''jgrinwiskv'' ''age_gate'' item t 0 = ReadValue v \<Longrightarrow> as_integer v = Some m \<Longrightarrow>
   getJson store edgeKv2fa item t = Inr m"
  by (simp add: getJson_def edgeKv2fa_def read_integer)

text \<open>A call reads the store at its first attempt and at its retries, and nowhere else.\<close>

lemma read_with_retries_cong:
  "(\<forall>i \<le> k. rd (n + i) = rd' (n + i)) \<Longrightarrow>
   read_with_retries rd n k = read_with_retries rd' n k"
proof (induction k arbitrary: n)
  case 0
  then have "rd n = rd' n" by simp
  then show ?case
    by (simp add: read_with_retries.simps [of rd n 0] read_with_retries.simps [of rd' n 0]
        split: read_outcome.split)
next
  case (Suc k)
  from Suc.prems have here: "rd n = rd' n" by (metis le0 add_0_right)
  have "\<forall>i \<le> k. rd (Suc n + i) = rd' (Suc n + i)"
  proof (intro allI impI)
    fix i assume "i \<le> k"
    then have "Suc i \<le> Suc k" by simp
    with Suc.prems have "rd (n + Suc i) = rd' (n + Suc i)" by blast
    then show "rd (Suc n + i) = rd' (Suc n + i)" by simp
  qed
  then have "read_with_retries rd (Suc n) k = read_with_retries rd' (Suc n) k"
    by (rule Suc.IH)
  with here show ?case
    by (simp add: read_with_retries.simps [of rd n "Suc k"]
        read_with_retries.simps [of rd' n "Suc k"] split: read_outcome.split)
qed

text \<open>
  C3. When the lookup for the country of the request fails, whatever the failure
  (\<open>KvTimeout\<close>, \<open>KvAbsent\<close> or \<open>KvNotInteger\<close>), the minimum age that the handler
  compares the age with is 18.
\<close>

theorem failed_lookup_means_18:
  assumes "json_result request = Inr jsonBody"
    and "get_birthday jsonBody = Inr b"
    and "newDate E b = Inr birthdate"
    and "getJson (kv_read E) edgeKv2fa (countryCode request) edgeKvTimeout = Inl err"
  shows "fst (minimalAge_lookup E (countryCode request)) = 18
    \<and> snd (responseProvider E request) =
        Inr (age_check (calculateAge (clock E) birthdate) (countryCode request) 18)"
  unfolding responseProvider_resolved [OF assms(1-3)] minimalAge_lookup_failed [OF assms(4)]
  by simp

theorem failed_lookup_means_18_witness:
  "json_result request_2000_DE = Inr (JObject [(''birthday'', JString ''2000-01-01'')])
   \<and> get_birthday (JObject [(''birthday'', JString ''2000-01-01'')])
       = Inr (Val (JString ''2000-01-01''))
   \<and> newDate sample_env (Val (JString ''2000-01-01'')) = Inr (Date (Num 946684800000))
   \<and> getJson (kv_read sample_env) edgeKv2fa (countryCode request_2000_DE) edgeKvTimeout
       = Inl KvTimeout
   \<and> fst (minimalAge_lookup sample_env (countryCode request_2000_DE)) = 18
   \<and> snd (responseProvider sample_env request_2000_DE) =
        Inr (age_check (Num 24) ''DE'' 18)"
proof -
  have h1: "json_result request_2000_DE
      = Inr (JObject [(''birthday'', JString ''2000-01-01'')])"
    by (simp add: request_2000_DE_def)
  have h2: "get_birthday (JObject [(''birthday'', JString ''2000-01-01'')])
      = Inr (Val (JString ''2000-01-01''))"
    by simp
  have h3: "newDate sample_env (Val (JString ''2000-01-01'')) = Inr (Date (Num 946684800000))"
    by (simp add: sample_env_def sample_Date_parse_def maxTime_def)
  have h4: "getJson (kv_read sample_env) edgeKv2fa (countryCode request_2000_DE) edgeKvTimeout
      = Inl KvTimeout"
    by code_simp
  have a: "calculateAge (clock sample_env) (Date (Num 946684800000)) = Num 24"
    by code_simp
  have c: "countryCode request_2000_DE = ''DE''"
    by (simp add: countryCode_def request_2000_DE_def)
  show ?thesis
    using h1 h2 h3 h4 failed_lookup_means_18 [OF h1 h2 h3 h4] unfolding a c by simp
qed

section \<open>Status, body and marker\<close>

text \<open>
  Where the handler answers a parsed body at all, the status is 200, whatever the store
  answers: for a body other than \<open>null\<close> whose birthday, when it is an object or an
  array, converts to a string without a TypeError.
\<close>

lemma answered_body_is_200:
  assumes "json_result request = Inr jsonBody"
    and "jsonBody \<noteq> JNull"
    and "\<forall>v. get_birthday jsonBody = Inr (Val v) \<longrightarrow> \<not> ToString_throws v"
  shows "\<exists>resp. snd (responseProvider E request) = Inr resp \<and> status resp = 200"
proof -
  obtain b where b: "get_birthday jsonBody = Inr b"
    using assms(2) get_birthday_throws [of jsonBody] by (cases "get_birthday jsonBody") auto
  have "\<not> (\<exists>v. b = Val v \<and> ToString_throws v)"
    using assms(3) b by auto
  then obtain birthdate where d: "newDate E b = Inr birthdate"
    using newDate_throws [of E b] by (cases "newDate E b") auto
  show ?thesis
    unfolding responseProvider_resolved [OF assms(1) b d] by (simp add: age_check_status)
qed

text \<open>
  C4 (as stated) fails for the body \<open>null\<close>. Every body that parses as JSON is to be
  answered with status 200; \<open>null\<close> is JSON, and the handler does not answer it: reading
  \<open>birthday\<close> of \<open>null\<close> (line 53) throws outside the \<open>try\<close> blocks, and the promise of
  the handler is rejected, which is what its comment at lines 40 to 45 sets out to avoid
  and what the 503 path does avoid.
\<close>

theorem null_body_is_rejected:
  "json_result request_null = Inr JNull
   \<and> get_birthday JNull = Inl TypeError
   \<and> snd (responseProvider sample_env request_null) = Inl TypeError"
  by (simp add: request_null_def responseProvider_def)

text \<open>
  The other body that is not answered: a birthday that is an object with a member named
  \<open>toString\<close>, which \<open>new Date\<close> cannot turn into a string (line 53 as well).
\<close>

lemma toString_member_is_rejected:
  "snd (responseProvider sample_env
         \<lparr>json_result =
            Inr (JObject [(''birthday'', JObject [(''toString'', JNumber (Finite 1))])]),
          userLocation_country = Some ''US''\<rparr>) = Inl TypeError"
  by code_simp

text \<open>
  When \<open>new Date\<close> makes an invalid Date of the birthday: there is no birthday, or it
  is a number out of the range of dates, or a string that \<open>Date.parse\<close> rejects, or an
  array or object whose string form \<open>Date.parse\<close> rejects. \<open>null\<close> and the booleans are
  never invalid: they are the time values 0 and 1.
\<close>

lemma newDate_invalid:
  "(newDate E b = Inr (Date NaN)) =
     (b = Undefined
      \<or> (\<exists>d. b = Val (JNumber d) \<and> TimeClip_double d = NaN)
      \<or> (\<exists>s. b = Val (JString s) \<and> TimeClip (Date_parse E s) = NaN)
      \<or> (\<exists>xs. b = Val (JArray xs) \<and> \<not> ToString_throws (JArray xs)
            \<and> TimeClip (Date_parse E (ToString (Number_toString E) (JArray xs))) = NaN)
      \<or> (\<exists>kvs. b = Val (JObject kvs) \<and> \<not> ToString_throws (JObject kvs)
            \<and> TimeClip (Date_parse E (ToString (Number_toString E) (JObject kvs))) = NaN))"
proof (cases b)
  case Undefined
  then show ?thesis by simp
next
  case (Val v)
  then show ?thesis by (cases v) auto
qed

text \<open>
  C6 (as amended). When the body parsed and \<open>new Date\<close> makes an invalid Date of its
  birthday (see \<open>newDate_invalid\<close> for when), the age is NaN, NaN \<open>>=\<close> any integer
  minimum age is false, and the response (status 200) has the two default headers only,
  none of them \<open>set-cookie\<close>, and the message \<open>You are too young to drink!\<close>.
\<close>

theorem invalid_birthdate_is_denied:
  assumes "json_result request = Inr jsonBody"
    and "get_birthday jsonBody = Inr b"
    and "newDate E b = Inr (Date NaN)"
  shows "calculateAge (clock E) (Date NaN) = NaN
    \<and> (\<forall>m. \<not> js_ge NaN (Num m))
    \<and> snd (responseProvider E request) =
        Inr \<lparr>status = 200, headers = responseHeader,
             body = JSON_stringify
               \<lparr>age = NaN, country = countryCode request,
                message = ''You are too young to drink!''\<rparr>\<rparr>
    \<and> map_of responseHeader ''set-cookie'' = None"
  unfolding responseProvider_resolved [OF assms] calculateAge_invalid
  by (simp add: age_check_fail no_cookie_by_default)

theorem invalid_birthdate_is_denied_witness:
  \<open>json_result request_soon = Inr (JObject [(''birthday'', JString ''soon'')])
   \<and> get_birthday (JObject [(''birthday'', JString ''soon'')]) = Inr (Val (JString ''soon''))
   \<and> newDate sample_env (Val (JString ''soon'')) = Inr (Date NaN)
   \<and> snd (responseProvider sample_env request_soon) =
        Inr \<lparr>status = 200, headers = responseHeader,
             body = ''{"age":null,"country":"US","message":"You are too young to drink!"}''\<rparr>\<close>
proof -
  have h1: "json_result request_soon = Inr (JObject [(''birthday'', JString ''soon'')])"
    by (simp add: request_soon_def)
  have h2: "get_birthday (JObject [(''birthday'', JString ''soon'')])
      = Inr (Val (JString ''soon''))"
    by simp
  have h3: "newDate sample_env (Val (JString ''soon'')) = Inr (Date NaN)"
    by (simp add: sample_env_def sample_Date_parse_def)
  have b: \<open>JSON_stringify
      \<lparr>age = NaN, country = countryCode request_soon,
       message = ''You are too young to drink!''\<rparr>
      = ''{"age":null,"country":"US","message":"You are too young to drink!"}''\<close>
    by code_simp
  show ?thesis
    using h1 h2 h3 invalid_birthdate_is_denied [OF h1 h2 h3] unfolding b by simp
qed

text \<open>
  C6 (as stated) fails for a birthday that is \<open>null\<close>: it is no date that could be
  parsed, but \<open>new Date(null)\<close> is 1 January 1970, so on 1 June 2024 the age is 54 and
  the request passes the check for US (21).
\<close>

theorem null_birthday_counterexample:
  \<open>json_result request_null_birthday = Inr (JObject [(''birthday'', JNull)])
   \<and> get_birthday (JObject [(''birthday'', JNull)]) = Inr (Val JNull)
   \<and> newDate sample_env (Val JNull) = Inr (Date (Num 0))
   \<and> calculateAge (clock sample_env) (Date (Num 0)) = Num 54
   \<and> snd (responseProvider sample_env request_null_birthday) =
        Inr \<lparr>status = 200,
             headers = responseHeader @ [(''set-cookie'', One ''old_enough=yes'')],
             body = ''{"age":54,"country":"US","message":"Welcome, have a drink."}''\<rparr>\<close>
  by code_simp

text \<open>
  C8 (as amended). For every request that is answered with status 200, the body is the
  text \<open>{"age":A,"country":C,"message":M}\<close>, where \<open>C\<close> is the quoted country code that the
  lookup used, \<open>M\<close> is one of the two quoted messages, and \<open>A\<close> is an integer in decimal,
  the UTC year of the elapsed time minus 1970, when the birthday made a valid date at
  most \<open>maxTime\<close> milliseconds from the clock, and \<open>null\<close> when the birthday made an
  invalid date or a date further from the clock.
\<close>

theorem body_is_age_country_message:
  assumes "json_result request = Inr jsonBody"
    and "get_birthday jsonBody = Inr b"
    and "newDate E b = Inr birthdate"
  shows \<open>\<exists>resp msg. snd (responseProvider E request) = Inr resp \<and> status resp = 200
    \<and> (msg = ''Welcome, have a drink.'' \<or> msg = ''You are too young to drink!'')
    \<and> body resp =
        ''{"age":'' @
        (case getTime birthdate of
           NaN \<Rightarrow> ''null''
         | Num t \<Rightarrow>
             if \<bar>clock E - t\<bar> \<le> maxTime
             then integer_to_string (YearFromTime (clock E - t) - 1970)
             else ''null'') @
        '',"country":'' @ QuoteJSONString (countryCode request) @
        '',"message":'' @ QuoteJSONString msg @ ''}''\<close>
proof -
  let ?a = "calculateAge (clock E) birthdate"
  have n: "JSON_number ?a =
      (case getTime birthdate of
         NaN \<Rightarrow> ''null''
       | Num t \<Rightarrow>
           if \<bar>clock E - t\<bar> \<le> maxTime
           then integer_to_string (YearFromTime (clock E - t) - 1970)
           else ''null'')"
  proof (cases birthdate)
    case (Date tv)
    then show ?thesis
      by (cases tv) (simp_all add: calculateAge_invalid calculateAge_valid)
  qed
  show ?thesis
  proof (cases "js_ge ?a (Num (fst (minimalAge_lookup E (countryCode request))))")
    case True
    let ?r = "\<lparr>status = 200,
      headers = responseHeader @ [(''set-cookie'', One ''old_enough=yes'')],
      body = JSON_stringify
        \<lparr>age = ?a, country = countryCode request, message = ''Welcome, have a drink.''\<rparr>\<rparr>"
    have "snd (responseProvider E request) = Inr ?r"
      unfolding responseProvider_resolved [OF assms] age_check_pass [OF True] by simp
    then show ?thesis
      by (intro exI [of _ ?r] exI [of _ "''Welcome, have a drink.''"])
        (simp add: JSON_stringify_def n)
  next
    case False
    let ?r = "\<lparr>status = 200, headers = responseHeader,
      body = JSON_stringify
        \<lparr>age = ?a, country = countryCode request,
         message = ''You are too young to drink!''\<rparr>\<rparr>"
    have "snd (responseProvider E request) = Inr ?r"
      unfolding responseProvider_resolved [OF assms] age_check_fail [OF False] by simp
    then show ?thesis
      by (intro exI [of _ ?r] exI [of _ "''You are too young to drink!''"])
        (simp add: JSON_stringify_def n)
  qed
qed

theorem body_is_age_country_message_witness:
  \<open>json_result request_2010_nowhere
     = Inr (JObject [(''birthday'', JString ''2010-01-01'')])
   \<and> get_birthday (JObject [(''birthday'', JString ''2010-01-01'')])
       = Inr (Val (JString ''2010-01-01''))
   \<and> newDate sample_env (Val (JString ''2010-01-01'')) = Inr (Date (Num 1262304000000))
   \<and> \<bar>clock sample_env - 1262304000000\<bar> \<le> maxTime
   \<and> (\<exists>resp msg. snd (responseProvider sample_env request_2010_nowhere) = Inr resp
         \<and> status resp = 200
         \<and> (msg = ''Welcome, have a drink.'' \<or> msg = ''You are too young to drink!'')
         \<and> body resp =
             ''{"age":'' @ ''14'' @ '',"country":'' @ ''"NL"'' @
             '',"message":'' @ QuoteJSONString msg @ ''}'')\<close>
proof -
  have h1: "json_result request_2010_nowhere
      = Inr (JObject [(''birthday'', JString ''2010-01-01'')])"
    by (simp add: request_2010_nowhere_def)
  have h2: "get_birthday (JObject [(''birthday'', JString ''2010-01-01'')])
      = Inr (Val (JString ''2010-01-01''))"
    by simp
  have h3: "newDate sample_env (Val (JString ''2010-01-01''))
      = Inr (Date (Num 1262304000000))"
    by (simp add: sample_env_def sample_Date_parse_def maxTime_def)
  have r: "\<bar>clock sample_env - 1262304000000\<bar> \<le> maxTime"
    by (simp add: sample_env_def maxTime_def)
  have y: "YearFromTime (clock sample_env - 1262304000000) - 1970 = 14"
    by code_simp
  have d: "integer_to_string 14 = ''14''"
    by code_simp
  have c: \<open>QuoteJSONString (countryCode request_2010_nowhere) = ''"NL"''\<close>
    by code_simp
  from body_is_age_country_message [OF h1 h2 h3]
  obtain resp msg where "snd (responseProvider sample_env request_2010_nowhere) = Inr resp"
    and "status resp = 200"
    and "msg = ''Welcome, have a drink.'' \<or> msg = ''You are too young to drink!''"
    and \<open>body resp =
        ''{"age":'' @ ''14'' @ '',"country":'' @ ''"NL"'' @
        '',"message":'' @ QuoteJSONString msg @ ''}''\<close>
    unfolding Date.sel jsnum.case if_P [OF r] y d c by blast
  then show ?thesis using h1 h2 h3 r by blast
qed

text \<open>
  C8 (as stated) fails when the birthday is not a valid date: the body has \<open>null\<close> for
  the age, not an integer. Here the body has no birthday at all.
\<close>

theorem age_null_counterexample:
  \<open>json_result request_no_birthday = Inr (JObject [(''name'', JString ''x'')])
   \<and> snd (responseProvider sample_env request_no_birthday) =
     Inr \<lparr>status = 200, headers = responseHeader,
          body = ''{"age":null,"country":"NL","message":"You are too young to drink!"}''\<rparr>\<close>
  by code_simp

text \<open>
  The other way to \<open>null\<close>: the earliest date there is, a valid date, is more than
  \<open>maxTime\<close> milliseconds before the clock.
\<close>

lemma far_birthdate_has_null_age:
  \<open>newDate sample_env (Val (JNumber (Finite (- 8640000000000000))))
     = Inr (Date (Num (- 8640000000000000)))
   \<and> snd (responseProvider sample_env request_far_birthday) =
     Inr \<lparr>status = 200, headers = responseHeader,
          body = ''{"age":null,"country":"US","message":"You are too young to drink!"}''\<rparr>\<close>
  by code_simp

section \<open>The reads of one call\<close>

lemma newDate_cong:
  "Date_parse E1 = Date_parse E2 \<Longrightarrow> Number_toString E1 = Number_toString E2 \<Longrightarrow>
   newDate E1 b = newDate E2 b"
proof (cases b)
  case Undefined
  then show ?thesis by simp
next
  case (Val v)
  assume "Date_parse E1 = Date_parse E2" "Number_toString E1 = Number_toString E2"
  with Val show ?thesis by (cases v) simp_all
qed

lemma getJson_cong:
  assumes "\<forall>n \<le> num_retries_on_timeout kv.
      store (namespace kv) (group kv) item t n = store' (namespace kv) (group kv) item t n"
  shows "getJson store kv item t = getJson store' kv item t"
  unfolding getJson_def using assms by (intro read_with_retries_cong) simp

text \<open>
  Of the surroundings the handler sees the outcome of \<open>request.json()\<close>, the country, the
  clock, the engine, and the answers of the store to the reads of the call: the first
  read and the two retries for the country code, in the namespace and group of the
  client, with its timeout.
\<close>

lemma response_reads_three_answers:
  assumes "json_result r1 = json_result r2"
    and "userLocation_country r1 = userLocation_country r2"
    and "clock E1 = clock E2"
    and "Date_parse E1 = Date_parse E2"
    and "Number_toString E1 = Number_toString E2"
    and "\<forall>n \<le> num_retries_on_timeout edgeKv2fa.
      kv_read E1 (namespace edgeKv2fa) (group edgeKv2fa) (countryCode r1) edgeKvTimeout n =
      kv_read E2 (namespace edgeKv2fa) (group edgeKv2fa) (countryCode r1) edgeKvTimeout n"
  shows "responseProvider E1 r1 = responseProvider E2 r2"
proof -
  have cc: "countryCode r1 = countryCode r2"
    using assms(2) by (simp add: countryCode_def)
  have "getJson (kv_read E1) edgeKv2fa (countryCode r1) edgeKvTimeout
      = getJson (kv_read E2) edgeKv2fa (countryCode r1) edgeKvTimeout"
    using assms(6) by (rule getJson_cong)
  then have m: "minimalAge_lookup E1 (countryCode r1) = minimalAge_lookup E2 (countryCode r1)"
    by (simp add: minimalAge_lookup_def assms(5) split: sum.split)
  have d: "\<And>b. newDate E1 b = newDate E2 b"
    using assms(4,5) by (rule newDate_cong)
  show ?thesis
    unfolding responseProvider_def Let_def d assms(1) assms(3) cc [symmetric] m ..
qed

section \<open>One call after another\<close>

lemma set_cookie_property:
  "set_property ''set-cookie'' v responseHeader = responseHeader @ [(''set-cookie'', v)]"
  by (simp add: responseHeader_def)

text \<open>
  After the branch of the passed check the header object has the cookie and the response
  object the other message, when the three references are three objects.
\<close>

lemma old_enough_header:
  assumes "heap w h = Some (HeaderObject hs)" and "h < next_ref w" and "r < next_ref w"
    and "h \<noteq> r"
  shows "header_object (old_enough h r w) h
    = set_property ''set-cookie'' (One ''old_enough=yes'') hs"
  using assms
  by (simp add: old_enough_def new_object_def put_object_def header_object_def
      cookie_object_def toHeader_def Let_def)

lemma old_enough_response:
  assumes "heap w r = Some (ResponseObject x)" and "h < next_ref w" and "r < next_ref w"
    and "h \<noteq> r"
  shows "response_object (old_enough h r w) r = x\<lparr>message := ''Welcome, have a drink.''\<rparr>"
  using assms
  by (simp add: old_enough_def new_object_def put_object_def header_object_def
      response_object_def cookie_object_def Let_def)

text \<open>
  The body of the handler on a header object that holds the default headers answers as
  \<open>responseProvider\<close> says, whatever else the world holds.
\<close>

lemma responseProvider_body_response:
  assumes "heap w h = Some (HeaderObject responseHeader)" and "h < next_ref w"
  shows "fst (responseProvider_body h E request w) = snd (responseProvider E request)"
proof (cases "json_result request")
  case (Inl error)
  then show ?thesis
    using assms(1)
    by (simp add: responseProvider_body_def responseProvider_def header_object_def)
next
  case (Inr jsonBody)
  show ?thesis
  proof (cases "get_birthday jsonBody")
    case (Inl e)
    with Inr show ?thesis
      by (simp add: responseProvider_body_def responseProvider_def)
  next
    case b: (Inr b)
    show ?thesis
    proof (cases "newDate E b")
      case (Inl e)
      with Inr b show ?thesis
        by (simp add: responseProvider_body_def responseProvider_def)
    next
      case d: (Inr birthdate)
      let ?a = "calculateAge (clock E) birthdate"
      let ?cc = "countryCode request"
      let ?x = "\<lparr>age = ?a, country = ?cc, message = ''You are too young to drink!''\<rparr>"
      let ?r = "next_ref w"
      define w1 where "w1 = snd (new_object (ResponseObject ?x) w)"
      define m where "m = fst (minimalAge_lookup E ?cc)"
      define w2 where "w2 = w1\<lparr>logged := logged w1 @ snd (minimalAge_lookup E ?cc)\<rparr>"
      have nw: "new_object (ResponseObject ?x) w = (?r, w1)"
        by (simp add: w1_def new_object_def)
      have w2: "heap w2 h = Some (HeaderObject responseHeader)"
        "heap w2 ?r = Some (ResponseObject ?x)" "next_ref w2 = Suc ?r"
        using assms by (simp_all add: w2_def w1_def new_object_def)
      have lookup: "(case getJson (kv_read E) edgeKv2fa ?cc edgeKvTimeout of
            Inr v \<Rightarrow>
              (v, logger_log
                    (LogText (''edgekv value: '' @ Number_toString E (Finite (of_int v)))) w1)
          | Inl error \<Rightarrow> (18, logger_log (LogFormat ''something went wrong: %s'') w1))
          = (m, w2)"
        by (cases "getJson (kv_read E) edgeKv2fa ?cc edgeKvTimeout")
          (simp_all add: m_def w2_def minimalAge_lookup_def logger_log_def)
      have body: "fst (responseProvider_body h E request w) =
          Inr (createResponse 200
            (header_object (if js_ge ?a (Num m) then old_enough h ?r w2 else w2) h)
            (JSON_stringify
              (response_object (if js_ge ?a (Num m) then old_enough h ?r w2 else w2) ?r)))"
        using Inr b d by (simp add: responseProvider_body_def Let_def nw lookup)
      have pure: "snd (responseProvider E request) = Inr (age_check ?a ?cc m)"
        using responseProvider_resolved [OF Inr b d] by (simp add: m_def)
      show ?thesis
      proof (cases "js_ge ?a (Num m)")
        case True
        have "header_object (old_enough h ?r w2) h
            = responseHeader @ [(''set-cookie'', One ''old_enough=yes'')]"
          using old_enough_header [of w2 h responseHeader ?r] w2 assms(2)
          by (simp add: set_cookie_property)
        moreover have "response_object (old_enough h ?r w2) ?r
            = ?x\<lparr>message := ''Welcome, have a drink.''\<rparr>"
          using old_enough_response [of w2 ?r ?x h] w2 assms(2) by simp
        ultimately show ?thesis
          unfolding body pure using True
          by (simp add: age_check_pass createResponse_def)
      next
        case False
        have "header_object w2 h = responseHeader" "response_object w2 ?r = ?x"
          using w2 by (simp_all add: header_object_def response_object_def)
        then show ?thesis
          unfolding body pure using False
          by (simp add: age_check_fail createResponse_def)
      qed
    qed
  qed
qed

lemma responseProvider_call_response:
  "fst (responseProvider_call E request w) = snd (responseProvider E request)"
proof -
  let ?w1 = "snd (new_object (HeaderObject responseHeader) w)"
  have "heap ?w1 (next_ref w) = Some (HeaderObject responseHeader)"
    and "next_ref w < next_ref ?w1"
    by (simp_all add: new_object_def)
  then have "fst (responseProvider_body (next_ref w) E request ?w1)
      = snd (responseProvider E request)"
    by (rule responseProvider_body_response)
  then show ?thesis
    by (simp add: responseProvider_call_def new_object_def)
qed

text \<open>
  C9. Two calls of the handler with the same request, the same clock, the same engine
  and the same answers of the store give the same response (the same status, headers
  and body, or the same rejection), whatever the calls before them have left in the
  world: each call makes the objects that it writes to, and reads no object of an
  earlier call.
\<close>

theorem same_input_same_response:
  "fst (responseProvider_call E request w1) = fst (responseProvider_call E request w2)"
  by (simp only: responseProvider_call_response)

text \<open>
  The call of an adult from US leaves a header object with the cookie in the world; the
  call that follows, of someone too young, answers as it does in the world before the
  first call, without the cookie.
\<close>

theorem same_input_same_response_witness:
  \<open>heap (snd (responseProvider_call sample_env request_2000_US world_init)) 0
     = Some (HeaderObject (responseHeader @ [(''set-cookie'', One ''old_enough=yes'')]))
   \<and> fst (responseProvider_call sample_env request_2010_nowhere
           (snd (responseProvider_call sample_env request_2000_US world_init)))
       = fst (responseProvider_call sample_env request_2010_nowhere world_init)
   \<and> fst (responseProvider_call sample_env request_2010_nowhere world_init) =
       Inr \<lparr>status = 200, headers = responseHeader,
            body = ''{"age":14,"country":"NL","message":"You are too young to drink!"}''\<rparr>\<close>
proof -
  have past: \<open>heap (snd (responseProvider_call sample_env request_2000_US world_init)) 0
      = Some (HeaderObject (responseHeader @ [(''set-cookie'', One ''old_enough=yes'')]))\<close>
    by code_simp
  have now: \<open>fst (responseProvider_call sample_env request_2010_nowhere world_init) =
       Inr \<lparr>status = 200, headers = responseHeader,
            body = ''{"age":14,"country":"NL","message":"You are too young to drink!"}''\<rparr>\<close>
    by code_simp
  show ?thesis
    using past now
      same_input_same_response [of sample_env request_2010_nowhere
        "snd (responseProvider_call sample_env request_2000_US world_init)" world_init]
    by simp
qed

text \<open>
  This rests on line 22 being inside the handler. Were the header object made once, when
  the module is loaded, and each call run on that one object, the cookie of an adult
  would stay in it: the call that follows, of someone too young, would be answered with
  the cookie.
\<close>

lemma shared_header_object_would_leak:
  \<open>fst (responseProvider_body 0 sample_env request_2010_nowhere
          (snd (responseProvider_body 0 sample_env request_2000_US
                  (snd (new_object (HeaderObject responseHeader) world_init))))) =
     Inr \<lparr>status = 200,
          headers = responseHeader @ [(''set-cookie'', One ''old_enough=yes'')],
          body = ''{"age":14,"country":"NL","message":"You are too young to drink!"}''\<rparr>\<close>
  by code_simp

section \<open>The country\<close>

text \<open>
  C10. A country code that is present and empty is replaced by \<open>NL\<close>, and the handler
  then does what it does when the country code is absent: same log, same response.
\<close>

theorem empty_country_is_NL:
  assumes "userLocation_country request = Some []"
  shows "countryCode request = ''NL''
    \<and> countryCode (request\<lparr>userLocation_country := None\<rparr>) = ''NL''
    \<and> responseProvider E request
        = responseProvider E (request\<lparr>userLocation_country := None\<rparr>)"
proof -
  have c1: "countryCode request = ''NL''"
    using assms by (simp add: countryCode_def)
  have c2: "countryCode (request\<lparr>userLocation_country := None\<rparr>) = ''NL''"
    by (simp add: countryCode_def)
  have "responseProvider E request
      = responseProvider E (request\<lparr>userLocation_country := None\<rparr>)"
    unfolding responseProvider_def c1 c2 by simp
  with c1 c2 show ?thesis by simp
qed

theorem empty_country_is_NL_witness:
  \<open>userLocation_country request_2010_nowhere = Some []
   \<and> countryCode request_2010_nowhere = ''NL''
   \<and> responseProvider sample_env request_2010_nowhere
       = responseProvider sample_env (request_2010_nowhere\<lparr>userLocation_country := None\<rparr>)
   \<and> responseProvider sample_env request_2010_nowhere =
       ([LogText ''edgekv value: 18''],
        Inr \<lparr>status = 200, headers = responseHeader,
             body = ''{"age":14,"country":"NL","message":"You are too young to drink!"}''\<rparr>)\<close>
proof -
  have h: "userLocation_country request_2010_nowhere = Some []"
    by (simp add: request_2010_nowhere_def)
  have r: \<open>responseProvider sample_env request_2010_nowhere =
       ([LogText ''edgekv value: 18''],
        Inr \<lparr>status = 200, headers = responseHeader,
             body = ''{"age":14,"country":"NL","message":"You are too young to drink!"}''\<rparr>)\<close>
    by code_simp
  show ?thesis
    using h r empty_country_is_NL [OF h, of sample_env] by simp
qed

end
